theory Spec2Isabelle
  imports Main "HOL-Library.Word"
begin

section \<open>The JNI boundary of the threaded renderer\<close>

text \<open>
  The development embeds \<^verbatim>\<open>core/jni/android_view_ThreadedRenderer.cpp\<close>.
  The file is glue between a managed caller and the render proxy, so most of what it
  does is a sequence of calls into collaborators. Each embedded function therefore
  returns, next to its value, the list of calls it issued, in program order. A call
  to \<^verbatim>\<open>LOG_ALWAYS_FATAL\<close> ends the process: it is the left summand of the result.
\<close>

type_synonym jint = "32 word"
type_synonym jlong = "64 word"
type_synonym uint32_t = "32 word"
type_synonym status_t = "32 word"

text \<open>
  How a run ends other than by returning: \<^verbatim>\<open>LOG_ALWAYS_FATAL\<close>, or the use of a
  member that was never written (undefined behaviour in C++).
\<close>

datatype abort = Fatal string | UninitializedRead string

datatype JavaVM = JavaVM nat
datatype jobject = JObject nat
datatype jstring = JString nat
datatype char_ptr = CharPtr nat

text \<open>
  What the \<^verbatim>\<open>JNIEnv\<close> of the calling thread answers. A nullable reference or
  pointer is an option, \<open>None\<close> being \<^verbatim>\<open>nullptr\<close>. \<open>GetJavaVM\<close> is \<open>None\<close> when the
  call returns a status other than \<^verbatim>\<open>JNI_OK\<close>; the out-parameter is then not written.
  \<open>GetStringUTFChars\<close> gives each string its buffer: two calls on one and the same
  string get one buffer here, where the JNI may hand out two, so what is proved of
  string buffers below is about calls whose strings differ.
\<close>

record JNIEnv =
  GetJavaVM :: "JavaVM option"
  NewGlobalRef :: "jobject \<Rightarrow> jobject option"
  GetStringUTFChars :: "jstring \<Rightarrow> char_ptr"

text \<open>\<^verbatim>\<open>vm->GetEnv\<close> on the thread that runs the code: \<open>None\<close> is any status but \<^verbatim>\<open>JNI_OK\<close>.\<close>

type_synonym thread = "JavaVM \<Rightarrow> JNIEnv option"

text \<open>
  The two holders of a listener's global reference. \<^verbatim>\<open>JGlobalRefHolder\<close> gets its
  VM from a call that was tested. \<^verbatim>\<open>FrameCompleteWrapper\<close> writes \<open>mVm\<close> through
  an untested \<^verbatim>\<open>GetJavaVM\<close>: \<open>None\<close> there is the member left unwritten.
\<close>

record JGlobalRefHolder =
  holder_mVm :: JavaVM
  holder_mObject :: "jobject option"

record FrameCompleteWrapper =
  mVm :: "JavaVM option"
  mObject :: "jobject option"

text \<open>
  The method ids that \<^verbatim>\<open>register_android_view_ThreadedRenderer\<close> stores in the
  three global structs.
\<close>

datatype jmethodID =
    gHardwareRenderer_invokePictureCapturedCallback
  | gFrameDrawingCallback_onFrameDraw
  | gFrameCompleteCallback_onFrameComplete

text \<open>
  The calls a function issues, as they appear in its trace. A callback handed to the
  proxy is a closure over its holder; the closure is written as the holder it captures.
\<close>

datatype event =
    Call_NewGlobalRef jobject "jobject option"
  | DeleteGlobalRef "jobject option"
  | CallVoidMethod "jobject option" jmethodID jlong
  | CallStaticVoidMethod jmethodID jlong "jobject option"
  | Call_GetStringUTFChars jstring char_ptr
  | ReleaseStringUTFChars jstring char_ptr
  | RenderProxy_overrideProperty char_ptr char_ptr
  | RenderProxy_setName char_ptr
  | egl_set_cache_filename char_ptr
  | ShaderCache_setFilename char_ptr
  | RenderProxy_setPictureCapturedCallback "JGlobalRefHolder option"
  | RenderProxy_setFrameCallback "JGlobalRefHolder option"
  | RenderProxy_setFrameCompleteCallback "FrameCompleteWrapper option"
  | AttachCurrentThreadAsDaemon JavaVM string

text \<open>How many global references a trace releases, and how many times it invokes a listener method.\<close>

definition releases :: "event list \<Rightarrow> nat" where
  "releases tr = length (filter (\<lambda>e. case e of DeleteGlobalRef _ \<Rightarrow> True | _ \<Rightarrow> False) tr)"

definition invocations :: "event list \<Rightarrow> nat" where
  "invocations tr = length (filter (\<lambda>e. case e of CallVoidMethod _ _ _ \<Rightarrow> True | _ \<Rightarrow> False) tr)"

subsection \<open>getenv\<close>

definition getenv :: "thread \<Rightarrow> JavaVM \<Rightarrow> abort + JNIEnv" where
  "getenv GetEnv vm =
     (case GetEnv vm of
        None \<Rightarrow> Inl (Fatal ''Failed to get JNIEnv for JavaVM'')
      | Some env \<Rightarrow> Inr env)"

subsection \<open>nSyncAndDrawFrame\<close>

text \<open>
  The proxy as far as this file reaches into it: the worker-owned frame-info storage
  that \<^verbatim>\<open>proxy->frameInfo()\<close> points to. \<^verbatim>\<open>RenderProxy::syncAndDrawFrame\<close> itself
  is a parameter of the embedding: it reads the proxy and answers the draw flags.
\<close>

record RenderProxy =
  mFrameInfo :: "jlong list"

text \<open>
  \<^verbatim>\<open>GetLongArrayRegion(array, start, len, buf)\<close> of the JNI specification: a region
  that is not inside the array raises ArrayIndexOutOfBoundsException (left pending,
  the flag of the result) and copies nothing; otherwise \<open>len\<close> elements from \<open>start\<close>
  on replace the first \<open>len\<close> cells of the buffer.
\<close>

definition GetLongArrayRegion ::
  "jlong list \<Rightarrow> jint \<Rightarrow> jint \<Rightarrow> jlong list \<Rightarrow> jlong list \<times> bool" where
  "GetLongArrayRegion array start len buf =
     (if sint start < 0 \<or> sint len < 0 \<or> int (length array) < sint start + sint len
      then (buf, True)
      else (take (nat (sint len)) (drop (nat (sint start)) array) @ drop (nat (sint len)) buf,
            False))"

text \<open>
  \<open>UI_THREAD_FRAME_INFO_SIZE\<close> comes from \<^verbatim>\<open>FrameInfo.h\<close>, where it also is the
  length of the storage array; it is the first parameter, a natural number as an
  array length is. The result holds the flags, the proxy after the draw, and
  whether an array exception is pending.
\<close>

definition android_view_ThreadedRenderer_syncAndDrawFrame ::
  "nat \<Rightarrow> (RenderProxy \<Rightarrow> jint \<times> RenderProxy) \<Rightarrow> RenderProxy \<Rightarrow> jlong list \<Rightarrow> jint
     \<Rightarrow> abort + (jint \<times> RenderProxy \<times> bool)" where
  "android_view_ThreadedRenderer_syncAndDrawFrame UI_THREAD_FRAME_INFO_SIZE
       RenderProxy_syncAndDrawFrame proxy frameInfo frameInfoSize =
     (if sint frameInfoSize \<noteq> int UI_THREAD_FRAME_INFO_SIZE
      then Inl (Fatal ''Mismatched size expectations'')
      else
        let (buf, pending) = GetLongArrayRegion frameInfo 0 frameInfoSize (mFrameInfo proxy);
            proxy1 = proxy\<lparr>mFrameInfo := buf\<rparr>;
            (flags, proxy2) = RenderProxy_syncAndDrawFrame proxy1
        in Inr (flags, proxy2, pending))"

text \<open>A draw that leaves the proxy as it found it and answers no flag.\<close>

definition draw_nothing :: "RenderProxy \<Rightarrow> jint \<times> RenderProxy" where
  "draw_nothing proxy = (0, proxy)"

text \<open>A draw that answers the first frame-info cell as its flags.\<close>

definition draw_first_cell :: "RenderProxy \<Rightarrow> jint \<times> RenderProxy" where
  "draw_first_cell proxy = (ucast (hd (mFrameInfo proxy)), proxy)"

definition blank_proxy :: RenderProxy where
  "blank_proxy = \<lparr>mFrameInfo = [0, 0, 0, 0, 0, 0, 0, 0, 0]\<rparr>"

subsection \<open>FrameCompleteWrapper\<close>

text \<open>
  The constructor. The status of \<^verbatim>\<open>GetJavaVM\<close> is not looked at; a null global
  reference is fatal.
\<close>

definition FrameCompleteWrapper_new ::
  "JNIEnv \<Rightarrow> jobject \<Rightarrow> abort + (FrameCompleteWrapper \<times> event list)" where
  "FrameCompleteWrapper_new env listener =
     (case NewGlobalRef env listener of
        None \<Rightarrow> Inl (Fatal ''Failed to make global ref'')
      | Some obj \<Rightarrow>
          Inr (\<lparr>mVm = GetJavaVM env, mObject = Some obj\<rparr>,
               [Call_NewGlobalRef listener (Some obj)]))"

text \<open>\<^verbatim>\<open>getenv(mVm)\<close> inside the wrapper: reading a member that was never written is an error of its own.\<close>

definition getenv_mVm :: "thread \<Rightarrow> FrameCompleteWrapper \<Rightarrow> abort + JNIEnv" where
  "getenv_mVm GetEnv w =
     (case mVm w of
        None \<Rightarrow> Inl (UninitializedRead ''mVm'')
      | Some vm \<Rightarrow> getenv GetEnv vm)"

definition releaseObject ::
  "thread \<Rightarrow> FrameCompleteWrapper \<Rightarrow> abort + (FrameCompleteWrapper \<times> event list)" where
  "releaseObject GetEnv w =
     (case mObject w of
        None \<Rightarrow> Inr (w, [])
      | Some obj \<Rightarrow>
          (case getenv_mVm GetEnv w of
             Inl a \<Rightarrow> Inl a
           | Inr env \<Rightarrow> Inr (w\<lparr>mObject := None\<rparr>, [DeleteGlobalRef (Some obj)])))"

text \<open>The trace macro \<^verbatim>\<open>ATRACE_FORMAT\<close> has no effect on the state and is left out.\<close>

definition FrameCompleteWrapper_onFrameComplete ::
  "thread \<Rightarrow> FrameCompleteWrapper \<Rightarrow> jlong \<Rightarrow> abort + (FrameCompleteWrapper \<times> event list)" where
  "FrameCompleteWrapper_onFrameComplete GetEnv w frameNr =
     (case mObject w of
        None \<Rightarrow> Inr (w, [])
      | Some obj \<Rightarrow>
          (case getenv_mVm GetEnv w of
             Inl a \<Rightarrow> Inl a
           | Inr env \<Rightarrow>
               (case releaseObject GetEnv w of
                  Inl a \<Rightarrow> Inl a
                | Inr (w', tr) \<Rightarrow>
                    Inr (w', CallVoidMethod (Some obj) gFrameCompleteCallback_onFrameComplete frameNr # tr))))"

definition FrameCompleteWrapper_destroy ::
  "thread \<Rightarrow> FrameCompleteWrapper \<Rightarrow> abort + (FrameCompleteWrapper \<times> event list)" where
  "FrameCompleteWrapper_destroy GetEnv w = releaseObject GetEnv w"

text \<open>
  A life of one wrapper: the calls of \<open>onFrameComplete\<close>, each on its thread with
  its frame number, then the destructor on its thread. The result keeps the trace of
  every call apart, and the destructor's.
\<close>

fun onFrameComplete_calls ::
  "FrameCompleteWrapper \<Rightarrow> (thread \<times> jlong) list
     \<Rightarrow> abort + (FrameCompleteWrapper \<times> event list list)" where
  "onFrameComplete_calls w [] = Inr (w, [])"
| "onFrameComplete_calls w (c # cs) =
     (case FrameCompleteWrapper_onFrameComplete (fst c) w (snd c) of
        Inl a \<Rightarrow> Inl a
      | Inr (w', tr) \<Rightarrow>
          (case onFrameComplete_calls w' cs of
             Inl a \<Rightarrow> Inl a
           | Inr (w'', trs) \<Rightarrow> Inr (w'', tr # trs)))"

definition wrapper_life ::
  "FrameCompleteWrapper \<Rightarrow> (thread \<times> jlong) list \<Rightarrow> thread
     \<Rightarrow> abort + (event list list \<times> event list)" where
  "wrapper_life w calls GetEnv =
     (case onFrameComplete_calls w calls of
        Inl a \<Rightarrow> Inl a
      | Inr (w', trs) \<Rightarrow>
          (case FrameCompleteWrapper_destroy GetEnv w' of
             Inl a \<Rightarrow> Inl a
           | Inr (w'', tr) \<Rightarrow> Inr (trs, tr)))"

subsection \<open>JGlobalRefHolder and the callback registrations\<close>




definition android_view_ThreadedRenderer_setPictureCapturedCallbackJNI ::
  "JNIEnv \<Rightarrow> jobject option \<Rightarrow> abort + event list" where
  "android_view_ThreadedRenderer_setPictureCapturedCallbackJNI env pictureCallback =
     (case pictureCallback of
        None \<Rightarrow> Inr [RenderProxy_setPictureCapturedCallback None]
      | Some cb \<Rightarrow>
          (case GetJavaVM env of
             None \<Rightarrow> Inl (Fatal ''Unable to get Java VM'')
           | Some vm \<Rightarrow>
               let globalCallbackRef =
                     \<lparr>holder_mVm = vm, holder_mObject = NewGlobalRef env cb\<rparr>
               in Inr [Call_NewGlobalRef cb (NewGlobalRef env cb),
                       RenderProxy_setPictureCapturedCallback (Some globalCallbackRef)]))"

definition android_view_ThreadedRenderer_setFrameCallback ::
  "JNIEnv \<Rightarrow> jobject option \<Rightarrow> abort + event list" where
  "android_view_ThreadedRenderer_setFrameCallback env frameCallback =
     (case frameCallback of
        None \<Rightarrow> Inr [RenderProxy_setFrameCallback None]
      | Some cb \<Rightarrow>
          (case GetJavaVM env of
             None \<Rightarrow> Inl (Fatal ''Unable to get Java VM'')
           | Some vm \<Rightarrow>
               let globalCallbackRef =
                     \<lparr>holder_mVm = vm, holder_mObject = NewGlobalRef env cb\<rparr>
               in Inr [Call_NewGlobalRef cb (NewGlobalRef env cb),
                       RenderProxy_setFrameCallback (Some globalCallbackRef)]))"

definition android_view_ThreadedRenderer_setFrameCompleteCallback ::
  "JNIEnv \<Rightarrow> jobject option \<Rightarrow> abort + event list" where
  "android_view_ThreadedRenderer_setFrameCompleteCallback env callback =
     (case callback of
        None \<Rightarrow> Inr [RenderProxy_setFrameCompleteCallback None]
      | Some cb \<Rightarrow>
          (case FrameCompleteWrapper_new env cb of
             Inl a \<Rightarrow> Inl a
           | Inr (wrapper, tr) \<Rightarrow>
               Inr (tr @ [RenderProxy_setFrameCompleteCallback (Some wrapper)])))"

subsection \<open>The attach hook\<close>

text \<open>
  The static \<open>mJvm\<close> starts as \<^verbatim>\<open>nullptr\<close>; registration writes it through an
  untested \<^verbatim>\<open>GetJavaVM\<close>, so it stays null when that call fails. Of
  \<^verbatim>\<open>register_android_view_ThreadedRenderer\<close> only this write is embedded.
\<close>

definition register_android_view_ThreadedRenderer_mJvm :: "JNIEnv \<Rightarrow> JavaVM option" where
  "register_android_view_ThreadedRenderer_mJvm env = GetJavaVM env"

definition attachRenderThreadToJvm :: "JavaVM option \<Rightarrow> string \<Rightarrow> abort + event list" where
  "attachRenderThreadToJvm mJvm name =
     (case mJvm of
        None \<Rightarrow> Inl (Fatal ''No jvm but we set the hook??'')
      | Some vm \<Rightarrow> Inr [AttachCurrentThreadAsDaemon vm name])"

subsection \<open>String arguments\<close>

definition android_view_ThreadedRenderer_setName :: "JNIEnv \<Rightarrow> jstring \<Rightarrow> event list" where
  "android_view_ThreadedRenderer_setName env jname =
     (let name = GetStringUTFChars env jname
      in [Call_GetStringUTFChars jname name, RenderProxy_setName name,
          ReleaseStringUTFChars jname name])"

definition android_view_ThreadedRenderer_overrideProperty ::
  "JNIEnv \<Rightarrow> jstring \<Rightarrow> jstring \<Rightarrow> event list" where
  "android_view_ThreadedRenderer_overrideProperty env name val =
     (let nameCharArray = GetStringUTFChars env name;
          valueCharArray = GetStringUTFChars env val
      in [Call_GetStringUTFChars name nameCharArray,
          Call_GetStringUTFChars val valueCharArray,
          RenderProxy_overrideProperty nameCharArray valueCharArray,
          ReleaseStringUTFChars name nameCharArray,
          ReleaseStringUTFChars name valueCharArray])"

definition android_view_ThreadedRenderer_setupShadersDiskCache ::
  "JNIEnv \<Rightarrow> jstring \<Rightarrow> jstring \<Rightarrow> event list" where
  "android_view_ThreadedRenderer_setupShadersDiskCache env diskCachePath skiaDiskCachePath =
     (let cacheArray = GetStringUTFChars env diskCachePath;
          skiaCacheArray = GetStringUTFChars env skiaDiskCachePath
      in [Call_GetStringUTFChars diskCachePath cacheArray,
          egl_set_cache_filename cacheArray,
          ReleaseStringUTFChars diskCachePath cacheArray,
          Call_GetStringUTFChars skiaDiskCachePath skiaCacheArray,
          ShaderCache_setFilename skiaCacheArray,
          ReleaseStringUTFChars skiaDiskCachePath skiaCacheArray])"

text \<open>
  What the claim on string buffers asks of a trace: the buffer got from each of the
  two strings is released once, with the string it came from.
\<close>

definition released_with_own_string :: "JNIEnv \<Rightarrow> jstring \<Rightarrow> event list \<Rightarrow> bool" where
  "released_with_own_string env s tr \<longleftrightarrow>
     count_list tr (ReleaseStringUTFChars s (GetStringUTFChars env s)) = 1"

subsection \<open>Frame-metrics observers\<close>

text \<open>
  \<^verbatim>\<open>new FrameMetricsObserverProxy(vm, fso)\<close> makes an object that holds the two
  arguments. The native heap is the list of the objects made so far; the object at
  position \<open>i\<close> has the address \<open>i + 1\<close>, so no address is null and \<^verbatim>\<open>new\<close> never
  answers the address of a live object. The registered observers of the proxy are
  kept as addresses.
\<close>

record FrameMetricsObserverProxy =
  observer_vm :: JavaVM
  observer_fso :: jobject

record observers =
  heap :: "FrameMetricsObserverProxy list"
  mObservers :: "nat list"

text \<open>
  Modelled from the spec: \<^verbatim>\<open>RenderProxy::addFrameMetricsObserver\<close> is not among the
  sources. The spec gives the registered observers set semantics, with no duplicate
  registration of the same observer: adding inserts the observer unless it is there.
\<close>

definition RenderProxy_addFrameMetricsObserver :: "nat \<Rightarrow> nat list \<Rightarrow> nat list" where
  "RenderProxy_addFrameMetricsObserver observer registered = List.insert observer registered"

text \<open>
  Modelled from the spec: \<^verbatim>\<open>RenderProxy::removeFrameMetricsObserver\<close> is not among
  the sources. The spec makes removing an observer that is not registered a no-op:
  removing takes the observer out if it is there.
\<close>

definition RenderProxy_removeFrameMetricsObserver :: "nat \<Rightarrow> nat list \<Rightarrow> nat list" where
  "RenderProxy_removeFrameMetricsObserver observer registered = removeAll observer registered"

text \<open>The result is the address of the new observer, as the \<open>jlong\<close> handed back.\<close>

definition android_view_ThreadedRenderer_addFrameMetricsObserver ::
  "JNIEnv \<Rightarrow> observers \<Rightarrow> jobject \<Rightarrow> abort + (nat \<times> observers)" where
  "android_view_ThreadedRenderer_addFrameMetricsObserver env st fso =
     (case GetJavaVM env of
        None \<Rightarrow> Inl (Fatal ''Unable to get Java VM'')
      | Some vm \<Rightarrow>
          let observer = Suc (length (heap st));
              st1 = st\<lparr>heap := heap st @ [\<lparr>observer_vm = vm, observer_fso = fso\<rparr>]\<rparr>
          in Inr (observer,
                  st1\<lparr>mObservers := RenderProxy_addFrameMetricsObserver observer (mObservers st1)\<rparr>))"

definition android_view_ThreadedRenderer_removeFrameMetricsObserver ::
  "observers \<Rightarrow> nat \<Rightarrow> observers" where
  "android_view_ThreadedRenderer_removeFrameMetricsObserver st observerPtr =
     st\<lparr>mObservers := RenderProxy_removeFrameMetricsObserver observerPtr (mObservers st)\<rparr>"

text \<open>The registered entries that report to a given Java observer.\<close>

definition entries_for :: "observers \<Rightarrow> jobject \<Rightarrow> nat list" where
  "entries_for st fso =
     filter (\<lambda>a. 0 < a \<and> a \<le> length (heap st) \<and> observer_fso (heap st ! (a - 1)) = fso)
       (mObservers st)"

text \<open>Every registered address is the address of an object of the heap.\<close>

definition registered_live :: "observers \<Rightarrow> bool" where
  "registered_live st \<longleftrightarrow> list_all (\<lambda>a. 0 < a \<and> a \<le> length (heap st)) (mObservers st)"

definition no_observers :: observers where
  "no_observers = \<lparr>heap = [], mObservers = []\<rparr>"

subsection \<open>nCreateHardwareBitmap\<close>

datatype SkColorSpace = SRGB | Other_ColorSpace nat

type_synonym SkColorType = nat
type_synonym PixelFormat = "32 word"
type_synonym android_dataspace = "32 word"

record GraphicBuffer =
  getWidth :: uint32_t
  getHeight :: uint32_t
  getPixelFormat :: PixelFormat

record BufferItem =
  mGraphicBuffer :: "GraphicBuffer option"
  mDataSpace :: android_dataspace

text \<open>
  \<^verbatim>\<open>Bitmap::createFrom(buffer, ct, cs)\<close>: the native bitmap, as the three arguments
  it is made of. A \<^verbatim>\<open>sk_sp<SkColorSpace>\<close> may be null.
\<close>

record Bitmap =
  bitmap_buffer :: GraphicBuffer
  bitmap_colorType :: SkColorType
  bitmap_colorSpace :: "SkColorSpace option"

definition Bitmap_createFrom :: "GraphicBuffer \<Rightarrow> SkColorType \<Rightarrow> SkColorSpace option \<Rightarrow> Bitmap" where
  "Bitmap_createFrom buffer ct cs =
     \<lparr>bitmap_buffer = buffer, bitmap_colorType = ct, bitmap_colorSpace = cs\<rparr>"

definition SkColorSpace_MakeSRGB :: "SkColorSpace option" where
  "SkColorSpace_MakeSRGB = Some SRGB"

text \<open>
  The Java object that \<^verbatim>\<open>bitmap::createBitmap(env, bitmap, flags)\<close> answers, written
  as the call that makes it.
\<close>

datatype java_Bitmap = bitmap_createBitmap Bitmap nat

text \<open>The flag's value, from \<^verbatim>\<open>GraphicsJNI.h\<close>.\<close>

definition kBitmapCreateFlag_Premultiplied :: nat where
  "kBitmapCreateFlag_Premultiplied = 2"

text \<open>
  What the collaborators answer during one snapshot: the clock, the consumer's
  \<open>acquireBuffer\<close> after the draw (status and item; the status \<open>OK\<close> is 0), and the
  two conversions of \<^verbatim>\<open>utils/Color.h\<close>.
\<close>

record snapshot_env =
  systemTime :: jlong
  acquireBuffer :: "status_t \<times> BufferItem"
  PixelFormatToColorType :: "PixelFormat \<Rightarrow> SkColorType"
  DataSpaceToColorSpace :: "android_dataspace \<Rightarrow> SkColorSpace option"

datatype log_line =
    Invalid_width_or_height jint jint
  | Failed_to_acquireBuffer status_t
  | GraphicBuffer_is_null
  | GraphicBuffer_size_mismatch uint32_t uint32_t uint32_t uint32_t

datatype snapshot_call =
    ALOGW log_line
  | BufferQueue_createBufferQueue
  | setMaxBufferCount nat
  | new_BufferItemConsumer
  | setDefaultBufferSize uint32_t uint32_t
  | new_Surface
  | new_RenderProxy bool jlong
  | setSwapBehavior_discardBuffer
  | setSurface
  | setLightAlpha nat nat
  | setLightGeometry_zero
  | UiFrameInfoBuilder_setVsync jlong jlong
  | UiFrameInfoBuilder_addFlag_SurfaceCanvas
  | RenderProxy_syncAndDrawFrame
  | delete_RenderProxy
  | Call_acquireBuffer
  | releaseBuffer
  | Call_Bitmap_createFrom GraphicBuffer SkColorType "SkColorSpace option"

definition create_surface :: "uint32_t \<Rightarrow> uint32_t \<Rightarrow> snapshot_call list" where
  "create_surface width height =
     [BufferQueue_createBufferQueue, setMaxBufferCount 2, new_BufferItemConsumer,
      setDefaultBufferSize width height, new_Surface]"

definition render_into_surface :: "snapshot_env \<Rightarrow> jlong \<Rightarrow> snapshot_call list" where
  "render_into_surface E renderNodePtr =
     (let vsync = systemTime E
      in [new_RenderProxy True renderNodePtr, setSwapBehavior_discardBuffer, setSurface,
          setLightAlpha 0 0, setLightGeometry_zero,
          UiFrameInfoBuilder_setVsync vsync vsync, UiFrameInfoBuilder_addFlag_SurfaceCanvas,
          RenderProxy_syncAndDrawFrame, delete_RenderProxy])"

definition android_view_ThreadedRenderer_createHardwareBitmapFromRenderNode ::
  "snapshot_env \<Rightarrow> jlong \<Rightarrow> jint \<Rightarrow> jint \<Rightarrow> java_Bitmap option \<times> snapshot_call list" where
  "android_view_ThreadedRenderer_createHardwareBitmapFromRenderNode E renderNodePtr jwidth jheight =
     (if sint jwidth \<le> 0 \<or> sint jheight \<le> 0
      then (None, [ALOGW (Invalid_width_or_height jwidth jheight)])
      else
        let width = jwidth;
            height = jheight;
            drawn = create_surface width height @ render_into_surface E renderNodePtr;
            (err, bufferItem) = acquireBuffer E
        in if err \<noteq> 0
           then (None, drawn @ [Call_acquireBuffer, ALOGW (Failed_to_acquireBuffer err)])
           else
             (case mGraphicBuffer bufferItem of
                None \<Rightarrow>
                  (None, drawn @ [Call_acquireBuffer, releaseBuffer, ALOGW GraphicBuffer_is_null])
              | Some buffer \<Rightarrow>
                  let warned =
                        (if getWidth buffer \<noteq> width \<or> getHeight buffer \<noteq> height
                         then [ALOGW (GraphicBuffer_size_mismatch
                                 (getWidth buffer) (getHeight buffer) width height)]
                         else []);
                      ct = PixelFormatToColorType E (getPixelFormat buffer);
                      cs0 = DataSpaceToColorSpace E (mDataSpace bufferItem);
                      cs = (if cs0 = None then SkColorSpace_MakeSRGB else cs0);
                      bitmap = Bitmap_createFrom buffer ct cs
                  in (Some (bitmap_createBitmap bitmap kBitmapCreateFlag_Premultiplied),
                      drawn @ [Call_acquireBuffer, releaseBuffer] @ warned
                        @ [Call_Bitmap_createFrom buffer ct cs])))"

text \<open>Whether a call makes one of the objects the snapshot draws with.\<close>

fun creates_object :: "snapshot_call \<Rightarrow> bool" where
  "creates_object BufferQueue_createBufferQueue = True"
| "creates_object new_BufferItemConsumer = True"
| "creates_object new_Surface = True"
| "creates_object (new_RenderProxy t n) = True"
| "creates_object c = False"

text \<open>A collaborator for the examples: the clock reads 100, the consumer hands out a 4 by 4 buffer, no data space has a color space.\<close>

definition small_buffer :: GraphicBuffer where
  "small_buffer = \<lparr>getWidth = 4, getHeight = 4, getPixelFormat = 1\<rparr>"

definition small_buffer_env :: snapshot_env where
  "small_buffer_env =
     \<lparr>systemTime = 100,
      acquireBuffer = (0, \<lparr>mGraphicBuffer = Some small_buffer, mDataSpace = 0\<rparr>),
      PixelFormatToColorType = (\<lambda>f. 4),
      DataSpaceToColorSpace = (\<lambda>d. None)\<rparr>"

subsection \<open>Environments for the examples\<close>

definition the_vm :: JavaVM where
  "the_vm = JavaVM 1"

text \<open>An environment where every call succeeds: a listener \<open>n\<close> gets the global reference \<open>n + 100\<close>.\<close>

definition good_env :: JNIEnv where
  "good_env =
     \<lparr>GetJavaVM = Some the_vm,
      NewGlobalRef = (\<lambda>l. case l of JObject n \<Rightarrow> Some (JObject (n + 100))),
      GetStringUTFChars = (\<lambda>s. case s of JString n \<Rightarrow> CharPtr (10 * n))\<rparr>"

text \<open>The same environment, but \<^verbatim>\<open>GetJavaVM\<close> fails.\<close>

definition no_vm_env :: JNIEnv where
  "no_vm_env = good_env\<lparr>GetJavaVM := None\<rparr>"

text \<open>The same environment, but \<^verbatim>\<open>NewGlobalRef\<close> answers null.\<close>

definition null_ref_env :: JNIEnv where
  "null_ref_env = good_env\<lparr>NewGlobalRef := (\<lambda>l. None)\<rparr>"

definition attached :: thread where
  "attached vm = Some good_env"

definition detached :: thread where
  "detached vm = None"

section \<open>Frame-info size check\<close>

text \<open>
  C1. A call of nSyncAndDrawFrame whose frameInfoSize differs from
  UI_THREAD_FRAME_INFO_SIZE aborts fatally and yields no result value; a call whose
  frameInfoSize equals the constant never takes the fatal branch: it returns a value.
\<close>

theorem syncAndDrawFrame_size_check:
  "(sint frameInfoSize \<noteq> int U \<longrightarrow>
      android_view_ThreadedRenderer_syncAndDrawFrame U draw proxy frameInfo frameInfoSize
        = Inl (Fatal ''Mismatched size expectations''))
   \<and> (sint frameInfoSize = int U \<longrightarrow>
      (\<exists>r. android_view_ThreadedRenderer_syncAndDrawFrame U draw proxy frameInfo frameInfoSize
        = Inr r))"
  by (simp add: android_view_ThreadedRenderer_syncAndDrawFrame_def split: prod.splits)

theorem syncAndDrawFrame_size_check_witness:
  "android_view_ThreadedRenderer_syncAndDrawFrame 9 draw_nothing blank_proxy [1, 2, 3] 8
     = Inl (Fatal ''Mismatched size expectations'')
   \<and> (\<exists>r. android_view_ThreadedRenderer_syncAndDrawFrame 9 draw_nothing blank_proxy
             [1, 2, 3, 4, 5, 6, 7, 8, 9] 9 = Inr r)"
  using syncAndDrawFrame_size_check [of 8 9 draw_nothing blank_proxy "[1, 2, 3]"]
    syncAndDrawFrame_size_check [of 9 9 draw_nothing blank_proxy "[1, 2, 3, 4, 5, 6, 7, 8, 9]"]
  by simp

section \<open>Copying the frame info\<close>

lemma GetLongArrayRegion_in_range:
  assumes "sint len = int n" and "n \<le> length array"
  shows "GetLongArrayRegion array 0 len buf = (take n array @ drop n buf, False)"
  using assms by (simp add: GetLongArrayRegion_def)

text \<open>
  C2, as stated, fails where the array is shorter than frameInfoSize: the size
  test passes, the region copy raises and copies nothing, and the draw runs on the
  storage as it was. Here the array holds three elements, the size is 9, and the
  first cell the draw reads is still 0, not the array's 1.
\<close>

theorem syncAndDrawFrame_short_array_counterexample:
  "sint (9 :: jint) = int 9
   \<and> android_view_ThreadedRenderer_syncAndDrawFrame 9 draw_first_cell blank_proxy [1, 2, 3] 9
       = Inr (0, blank_proxy, True)
   \<and> mFrameInfo blank_proxy ! 0 \<noteq> [1, 2, 3] ! 0"
  by (simp add: android_view_ThreadedRenderer_syncAndDrawFrame_def GetLongArrayRegion_def
      draw_first_cell_def blank_proxy_def)

text \<open>
  C2, amended. When the size precondition holds and the array holds at least
  frameInfoSize elements, the draw is invoked on the proxy whose storage holds the
  first frameInfoSize elements of the array, in order from index 0 (the cells
  beyond are untouched), no exception is pending, and the flags the draw answers
  are returned as they are.
\<close>

theorem syncAndDrawFrame_copies_then_draws:
  assumes "sint frameInfoSize = int U" and "U \<le> length frameInfo"
  shows "\<exists>proxy1.
           take U (mFrameInfo proxy1) = take U frameInfo
         \<and> (\<forall>i<U. mFrameInfo proxy1 ! i = frameInfo ! i)
         \<and> drop U (mFrameInfo proxy1) = drop U (mFrameInfo proxy)
         \<and> android_view_ThreadedRenderer_syncAndDrawFrame U draw proxy frameInfo frameInfoSize
             = Inr (fst (draw proxy1), snd (draw proxy1), False)"
proof -
  let ?p = "proxy\<lparr>mFrameInfo := take U frameInfo @ drop U (mFrameInfo proxy)\<rparr>"
  have len: "length (take U frameInfo) = U"
    using assms(2) by simp
  have "take U (mFrameInfo ?p) = take U frameInfo"
    using len by simp
  moreover have "\<forall>i<U. mFrameInfo ?p ! i = frameInfo ! i"
    using len by (simp add: nth_append)
  moreover have "drop U (mFrameInfo ?p) = drop U (mFrameInfo proxy)"
    using len by simp
  moreover have "android_view_ThreadedRenderer_syncAndDrawFrame U draw proxy frameInfo frameInfoSize
                   = Inr (fst (draw ?p), snd (draw ?p), False)"
    using assms
    by (simp add: android_view_ThreadedRenderer_syncAndDrawFrame_def
        GetLongArrayRegion_in_range split: prod.splits)
  ultimately show ?thesis by blast
qed

theorem syncAndDrawFrame_copies_then_draws_witness:
  "android_view_ThreadedRenderer_syncAndDrawFrame 9 draw_first_cell blank_proxy
     [7, 2, 3, 4, 5, 6, 7, 8, 9] 9
   = Inr (7, \<lparr>mFrameInfo = [7, 2, 3, 4, 5, 6, 7, 8, 9]\<rparr>, False)"
proof -
  have h1: "sint (9 :: jint) = int 9" by simp
  have h2: "9 \<le> length [7, 2, 3, 4, 5, 6, 7, 8, 9 :: jlong]" by simp
  obtain proxy1 where
    t: "take 9 (mFrameInfo proxy1) = take 9 [7, 2, 3, 4, 5, 6, 7, 8, 9]"
    and d: "drop 9 (mFrameInfo proxy1) = drop 9 (mFrameInfo blank_proxy)"
    and r: "android_view_ThreadedRenderer_syncAndDrawFrame 9 draw_first_cell blank_proxy
              [7, 2, 3, 4, 5, 6, 7, 8, 9] 9
            = Inr (fst (draw_first_cell proxy1), snd (draw_first_cell proxy1), False)"
    using syncAndDrawFrame_copies_then_draws [OF h1 h2, of blank_proxy draw_first_cell]
    by blast
  have "mFrameInfo proxy1 = take 9 (mFrameInfo proxy1) @ drop 9 (mFrameInfo proxy1)"
    by simp
  then have "mFrameInfo proxy1 = [7, 2, 3, 4, 5, 6, 7, 8, 9]"
    using t d by (simp add: blank_proxy_def)
  then have "proxy1 = \<lparr>mFrameInfo = [7, 2, 3, 4, 5, 6, 7, 8, 9]\<rparr>"
    by (cases proxy1) simp
  then show ?thesis using r by (simp add: draw_first_cell_def)
qed

section \<open>The snapshot\<close>

text \<open>The function on a positive size, with the acquired item named once.\<close>

lemma snapshot_positive_cases:
  assumes "0 < sint jwidth" and "0 < sint jheight"
  shows "android_view_ThreadedRenderer_createHardwareBitmapFromRenderNode E n jwidth jheight =
     (let drawn = create_surface jwidth jheight @ render_into_surface E n;
          err = fst (acquireBuffer E); bufferItem = snd (acquireBuffer E)
      in if err \<noteq> 0
         then (None, drawn @ [Call_acquireBuffer, ALOGW (Failed_to_acquireBuffer err)])
         else (case mGraphicBuffer bufferItem of
            None \<Rightarrow> (None, drawn @ [Call_acquireBuffer, releaseBuffer, ALOGW GraphicBuffer_is_null])
          | Some buffer \<Rightarrow>
              (Some (bitmap_createBitmap
                 (Bitmap_createFrom buffer (PixelFormatToColorType E (getPixelFormat buffer))
                    (if DataSpaceToColorSpace E (mDataSpace bufferItem) = None then Some SRGB
                     else DataSpaceToColorSpace E (mDataSpace bufferItem)))
                 kBitmapCreateFlag_Premultiplied),
               drawn @ [Call_acquireBuffer, releaseBuffer]
                 @ (if getWidth buffer \<noteq> jwidth \<or> getHeight buffer \<noteq> jheight
                    then [ALOGW (GraphicBuffer_size_mismatch (getWidth buffer) (getHeight buffer) jwidth jheight)]
                    else [])
                 @ [Call_Bitmap_createFrom buffer (PixelFormatToColorType E (getPixelFormat buffer))
                    (if DataSpaceToColorSpace E (mDataSpace bufferItem) = None then Some SRGB
                     else DataSpaceToColorSpace E (mDataSpace bufferItem))])))"
  using assms
  by (simp add: android_view_ThreadedRenderer_createHardwareBitmapFromRenderNode_def
      SkColorSpace_MakeSRGB_def Let_def split: prod.splits option.splits)

text \<open>
  C4. A snapshot asked with a width or a height that is zero or negative answers
  null; all it does is log the warning, so it makes no buffer queue, no consumer,
  no surface and no proxy, and no buffer of size zero comes out of it.
\<close>

theorem snapshot_rejects_nonpositive_size:
  assumes "sint jwidth \<le> 0 \<or> sint jheight \<le> 0"
  shows "android_view_ThreadedRenderer_createHardwareBitmapFromRenderNode E n jwidth jheight
           = (None, [ALOGW (Invalid_width_or_height jwidth jheight)])
         \<and> \<not> list_ex creates_object
               (snd (android_view_ThreadedRenderer_createHardwareBitmapFromRenderNode E n jwidth jheight))"
  using assms
  by (auto simp add: android_view_ThreadedRenderer_createHardwareBitmapFromRenderNode_def)

theorem snapshot_rejects_nonpositive_size_witness:
  "android_view_ThreadedRenderer_createHardwareBitmapFromRenderNode small_buffer_env 5 0 8
           = (None, [ALOGW (Invalid_width_or_height 0 8)])
   \<and> android_view_ThreadedRenderer_createHardwareBitmapFromRenderNode small_buffer_env 5 8 (- 1)
           = (None, [ALOGW (Invalid_width_or_height 8 (- 1))])"
proof -
  have a: "sint (0 :: jint) \<le> 0 \<or> sint (8 :: jint) \<le> 0" by simp
  have b: "sint (8 :: jint) \<le> 0 \<or> sint (- 1 :: jint) \<le> 0" by simp
  show ?thesis
    using snapshot_rejects_nonpositive_size [OF a, of small_buffer_env 5]
      snapshot_rejects_nonpositive_size [OF b, of small_buffer_env 5]
    by simp
qed

text \<open>
  C3, as stated, fails where the consumer hands out a buffer of another size: the
  function logs a warning and goes on. Asked for 8 by 8 while the acquired buffer is
  4 by 4, it answers a bitmap made of the 4 by 4 buffer.
\<close>

theorem snapshot_size_mismatch_counterexample:
  "0 < sint (8 :: jint)
   \<and> fst (android_view_ThreadedRenderer_createHardwareBitmapFromRenderNode small_buffer_env 5 8 8)
       = Some (bitmap_createBitmap (Bitmap_createFrom small_buffer 4 (Some SRGB))
                 kBitmapCreateFlag_Premultiplied)
   \<and> getWidth small_buffer = 4 \<and> getHeight small_buffer = 4 \<and> (4 :: uint32_t) \<noteq> 8"
  by (simp add: android_view_ThreadedRenderer_createHardwareBitmapFromRenderNode_def
      small_buffer_env_def small_buffer_def SkColorSpace_MakeSRGB_def Let_def)

text \<open>
  C3, amended. Asked with a positive width and height, the snapshot makes a surface
  whose buffers have the requested size, draws the node into it with one synchronous
  draw, lets the proxy go, and only then acquires a buffer, once. It answers null
  when the acquire fails or the acquired buffer is null, and otherwise a bitmap made
  of the acquired buffer, which the finished draw has populated. That buffer has the
  requested width and height and nothing is logged, or its size differs and the
  size-mismatch warning with both sizes is logged before the bitmap is made: no
  buffer of another size is answered without the warning.
\<close>

theorem snapshot_returns_acquired_buffer_or_null:
  assumes "0 < sint jwidth" and "0 < sint jheight"
  shows "\<exists>rest.
           snd (android_view_ThreadedRenderer_createHardwareBitmapFromRenderNode E n jwidth jheight)
             = [BufferQueue_createBufferQueue, setMaxBufferCount 2, new_BufferItemConsumer,
                setDefaultBufferSize jwidth jheight, new_Surface,
                new_RenderProxy True n, setSwapBehavior_discardBuffer, setSurface,
                setLightAlpha 0 0, setLightGeometry_zero,
                UiFrameInfoBuilder_setVsync (systemTime E) (systemTime E),
                UiFrameInfoBuilder_addFlag_SurfaceCanvas,
                RenderProxy_syncAndDrawFrame, delete_RenderProxy,
                Call_acquireBuffer] @ rest
         \<and> ((fst (android_view_ThreadedRenderer_createHardwareBitmapFromRenderNode
                     E n jwidth jheight) = None
              \<and> (fst (acquireBuffer E) \<noteq> 0
                    \<and> rest = [ALOGW (Failed_to_acquireBuffer (fst (acquireBuffer E)))]
                  \<or> fst (acquireBuffer E) = 0
                    \<and> mGraphicBuffer (snd (acquireBuffer E)) = None
                    \<and> rest = [releaseBuffer, ALOGW GraphicBuffer_is_null]))
            \<or> (\<exists>buffer ct cs.
                  fst (android_view_ThreadedRenderer_createHardwareBitmapFromRenderNode
                         E n jwidth jheight)
                    = Some (bitmap_createBitmap (Bitmap_createFrom buffer ct cs)
                              kBitmapCreateFlag_Premultiplied)
                \<and> fst (acquireBuffer E) = 0
                \<and> mGraphicBuffer (snd (acquireBuffer E)) = Some buffer
                \<and> (getWidth buffer = jwidth \<and> getHeight buffer = jheight
                      \<and> rest = [releaseBuffer, Call_Bitmap_createFrom buffer ct cs]
                    \<or> (getWidth buffer \<noteq> jwidth \<or> getHeight buffer \<noteq> jheight)
                      \<and> rest = [releaseBuffer,
                                 ALOGW (GraphicBuffer_size_mismatch (getWidth buffer)
                                          (getHeight buffer) jwidth jheight),
                                 Call_Bitmap_createFrom buffer ct cs])))"
  unfolding snapshot_positive_cases [OF assms]
  by (auto simp add: Let_def create_surface_def render_into_surface_def split: option.splits)

theorem snapshot_returns_acquired_buffer_or_null_witness:
  "android_view_ThreadedRenderer_createHardwareBitmapFromRenderNode small_buffer_env 5 8 8
     = (Some (bitmap_createBitmap (Bitmap_createFrom small_buffer 4 (Some SRGB))
                kBitmapCreateFlag_Premultiplied),
        [BufferQueue_createBufferQueue, setMaxBufferCount 2, new_BufferItemConsumer,
         setDefaultBufferSize 8 8, new_Surface,
         new_RenderProxy True 5, setSwapBehavior_discardBuffer, setSurface,
         setLightAlpha 0 0, setLightGeometry_zero,
         UiFrameInfoBuilder_setVsync 100 100, UiFrameInfoBuilder_addFlag_SurfaceCanvas,
         RenderProxy_syncAndDrawFrame, delete_RenderProxy,
         Call_acquireBuffer, releaseBuffer,
         ALOGW (GraphicBuffer_size_mismatch 4 4 8 8),
         Call_Bitmap_createFrom small_buffer 4 (Some SRGB)])"
proof -
  have pos: "0 < sint (8 :: jint)" by simp
  have a: "acquireBuffer small_buffer_env
             = (0, \<lparr>mGraphicBuffer = Some small_buffer, mDataSpace = 0\<rparr>)"
    and t: "systemTime small_buffer_env = 100"
    by (simp_all add: small_buffer_env_def)
  have b: "getWidth small_buffer = 4" "getHeight small_buffer = 4"
    by (simp_all add: small_buffer_def)
  have f: "fst (android_view_ThreadedRenderer_createHardwareBitmapFromRenderNode
                  small_buffer_env 5 8 8)
             = Some (bitmap_createBitmap (Bitmap_createFrom small_buffer 4 (Some SRGB))
                       kBitmapCreateFlag_Premultiplied)"
    by (simp add: android_view_ThreadedRenderer_createHardwareBitmapFromRenderNode_def
        small_buffer_env_def small_buffer_def SkColorSpace_MakeSRGB_def Let_def)
  have "snd (android_view_ThreadedRenderer_createHardwareBitmapFromRenderNode
               small_buffer_env 5 8 8)
          = [BufferQueue_createBufferQueue, setMaxBufferCount 2, new_BufferItemConsumer,
             setDefaultBufferSize 8 8, new_Surface,
             new_RenderProxy True 5, setSwapBehavior_discardBuffer, setSurface,
             setLightAlpha 0 0, setLightGeometry_zero,
             UiFrameInfoBuilder_setVsync 100 100, UiFrameInfoBuilder_addFlag_SurfaceCanvas,
             RenderProxy_syncAndDrawFrame, delete_RenderProxy,
             Call_acquireBuffer, releaseBuffer,
             ALOGW (GraphicBuffer_size_mismatch 4 4 8 8),
             Call_Bitmap_createFrom small_buffer 4 (Some SRGB)]"
    using snapshot_returns_acquired_buffer_or_null [OF pos pos, of small_buffer_env 5] f
    by (auto simp add: a t b Bitmap_createFrom_def)
  then show ?thesis
    using f by (simp add: prod_eq_iff)
qed

text \<open>
  C10. Every bitmap the snapshot answers is made with a color space that is not
  null: the one its data space maps to, and sRGB when the data space maps to none.
\<close>

theorem snapshot_bitmap_has_color_space:
  assumes "fst (android_view_ThreadedRenderer_createHardwareBitmapFromRenderNode E n jwidth jheight)
             = Some jb"
  shows "\<exists>bm flags c.
           jb = bitmap_createBitmap bm flags
         \<and> bitmap_colorSpace bm = Some c
         \<and> (DataSpaceToColorSpace E (mDataSpace (snd (acquireBuffer E))) = None \<longrightarrow> c = SRGB)
         \<and> (\<forall>c'. DataSpaceToColorSpace E (mDataSpace (snd (acquireBuffer E))) = Some c' \<longrightarrow> c = c')"
proof -
  have pos: "0 < sint jwidth" "0 < sint jheight"
    using assms
    by (auto simp add: android_view_ThreadedRenderer_createHardwareBitmapFromRenderNode_def
        split: if_splits)
  show ?thesis
    using assms unfolding snapshot_positive_cases [OF pos]
    by (auto simp add: Let_def Bitmap_createFrom_def split: option.splits if_splits)
qed

theorem snapshot_bitmap_has_color_space_witness:
  "fst (android_view_ThreadedRenderer_createHardwareBitmapFromRenderNode small_buffer_env 5 8 8)
     = Some (bitmap_createBitmap (Bitmap_createFrom small_buffer 4 (Some SRGB))
               kBitmapCreateFlag_Premultiplied)
   \<and> bitmap_colorSpace (Bitmap_createFrom small_buffer 4 (Some SRGB)) = Some SRGB"
proof -
  have r: "fst (android_view_ThreadedRenderer_createHardwareBitmapFromRenderNode
                  small_buffer_env 5 8 8)
           = Some (bitmap_createBitmap (Bitmap_createFrom small_buffer 4 (Some SRGB))
                     kBitmapCreateFlag_Premultiplied)"
    by (simp add: android_view_ThreadedRenderer_createHardwareBitmapFromRenderNode_def
        small_buffer_env_def small_buffer_def SkColorSpace_MakeSRGB_def Let_def)
  show ?thesis
    using snapshot_bitmap_has_color_space [OF r] r
    by (auto simp add: small_buffer_env_def)
qed

section \<open>The frame-complete wrapper\<close>

text \<open>What one call does to a wrapper that still holds its reference, and to one that gave it up.\<close>

lemma onFrameComplete_fires:
  assumes "mVm w = Some vm" and "mObject w = Some obj" and "GetEnv vm = Some e"
  shows "FrameCompleteWrapper_onFrameComplete GetEnv w frameNr
           = Inr (w\<lparr>mObject := None\<rparr>,
                  [CallVoidMethod (Some obj) gFrameCompleteCallback_onFrameComplete frameNr,
                   DeleteGlobalRef (Some obj)])"
  using assms
  by (simp add: FrameCompleteWrapper_onFrameComplete_def releaseObject_def getenv_mVm_def
      getenv_def)

lemma onFrameComplete_spent:
  assumes "mObject w = None"
  shows "FrameCompleteWrapper_onFrameComplete GetEnv w frameNr = Inr (w, [])"
  using assms by (simp add: FrameCompleteWrapper_onFrameComplete_def)

lemma onFrameComplete_calls_spent:
  assumes "mObject w = None"
  shows "onFrameComplete_calls w cs = Inr (w, map (\<lambda>c. []) cs)"
  using assms by (induction cs) (simp_all add: onFrameComplete_spent)

lemma destroy_spent:
  assumes "mObject w = None"
  shows "FrameCompleteWrapper_destroy GetEnv w = Inr (w, [])"
  using assms by (simp add: FrameCompleteWrapper_destroy_def releaseObject_def)

lemma destroy_live:
  assumes "mVm w = Some vm" and "mObject w = Some obj" and "GetEnv vm = Some e"
  shows "FrameCompleteWrapper_destroy GetEnv w
           = Inr (w\<lparr>mObject := None\<rparr>, [DeleteGlobalRef (Some obj)])"
  using assms
  by (simp add: FrameCompleteWrapper_destroy_def releaseObject_def getenv_mVm_def getenv_def)

lemma wrapper_life_never_fired:
  assumes "mVm w = Some vm" and "mObject w = Some obj" and "GetEnv vm = Some e"
  shows "wrapper_life w [] GetEnv = Inr ([], [DeleteGlobalRef (Some obj)])"
  using assms by (simp add: wrapper_life_def destroy_live)

lemma wrapper_life_fired:
  assumes "mVm w = Some vm" and "mObject w = Some obj" and "fst c vm = Some e"
  shows "wrapper_life w (c # cs) GetEnv
           = Inr ([CallVoidMethod (Some obj) gFrameCompleteCallback_onFrameComplete (snd c),
                   DeleteGlobalRef (Some obj)] # map (\<lambda>c. []) cs, [])"
  using assms
  by (simp add: wrapper_life_def onFrameComplete_fires onFrameComplete_calls_spent destroy_spent)

lemma concat_empty_traces: "concat (map (\<lambda>c. []) cs) = []"
  by (induction cs) simp_all

lemma FrameCompleteWrapper_new_Inr:
  assumes "FrameCompleteWrapper_new env listener = Inr (w, tr0)"
  shows "\<exists>obj. NewGlobalRef env listener = Some obj
             \<and> w = \<lparr>mVm = GetJavaVM env, mObject = Some obj\<rparr>
             \<and> tr0 = [Call_NewGlobalRef listener (Some obj)]"
  using assms by (auto simp add: FrameCompleteWrapper_new_def split: option.splits)

text \<open>What a call and the destructor have done when they return on a wrapper that holds its reference.\<close>

lemma onFrameComplete_returns:
  assumes "mObject w = Some obj"
    and "FrameCompleteWrapper_onFrameComplete GetEnv w frameNr = Inr (w', tr)"
  shows "w' = w\<lparr>mObject := None\<rparr>
       \<and> tr = [CallVoidMethod (Some obj) gFrameCompleteCallback_onFrameComplete frameNr,
                DeleteGlobalRef (Some obj)]"
  using assms
  by (auto simp add: FrameCompleteWrapper_onFrameComplete_def releaseObject_def
      split: sum.splits)

lemma destroy_returns:
  assumes "mObject w = Some obj"
    and "FrameCompleteWrapper_destroy GetEnv w = Inr (w', tr)"
  shows "tr = [DeleteGlobalRef (Some obj)]"
  using assms
  by (auto simp add: FrameCompleteWrapper_destroy_def releaseObject_def split: sum.splits)

lemma wrapper_life_returns:
  assumes "mObject w = Some obj"
    and "wrapper_life w calls GetEnv = Inr (trs, trd)"
  shows "(calls = [] \<longrightarrow> trs = [] \<and> trd = [DeleteGlobalRef (Some obj)])
       \<and> (\<forall>c cs. calls = c # cs \<longrightarrow>
             trs = [CallVoidMethod (Some obj) gFrameCompleteCallback_onFrameComplete (snd c),
                    DeleteGlobalRef (Some obj)] # map (\<lambda>c. []) cs
           \<and> trd = [])"
proof (cases calls)
  case Nil
  then show ?thesis
    using assms destroy_returns [OF assms(1)]
    by (auto simp add: wrapper_life_def split: sum.splits)
next
  case (Cons c cs)
  obtain w1 tr1 where
    first: "FrameCompleteWrapper_onFrameComplete (fst c) w (snd c) = Inr (w1, tr1)"
    using assms(2) Cons by (auto simp add: wrapper_life_def split: sum.splits)
  have w1: "w1 = w\<lparr>mObject := None\<rparr>"
    and tr1: "tr1 = [CallVoidMethod (Some obj) gFrameCompleteCallback_onFrameComplete (snd c),
                     DeleteGlobalRef (Some obj)]"
    using onFrameComplete_returns [OF assms(1) first] by simp_all
  have spent: "mObject w1 = None"
    using w1 by simp
  have "wrapper_life w calls GetEnv = Inr (tr1 # map (\<lambda>c. []) cs, [])"
    using Cons first
    by (simp add: wrapper_life_def onFrameComplete_calls_spent [OF spent]
        destroy_spent [OF spent])
  then show ?thesis
    using assms(2) Cons tr1 by simp
qed

text \<open>
  C5. Take a wrapper made by the constructor, any list of \<open>onFrameComplete\<close> calls
  and then the destructor. In every such life that runs to its end the listener is
  invoked at most once and the global reference is released exactly once: by the
  first call, right after the invocation, or by the destructor when there was no
  call. Every later call issues nothing, and after a call the destructor issues
  nothing. The life does run to its end whenever the constructor got the VM and the
  VM hands out an environment on the threads of the calls and of the destructor.
\<close>

theorem frameComplete_single_shot:
  assumes "FrameCompleteWrapper_new env listener = Inr (w, tr0)"
  shows "\<exists>obj.
           tr0 = [Call_NewGlobalRef listener (Some obj)]
         \<and> (\<forall>trs trd. wrapper_life w calls GetEnv = Inr (trs, trd) \<longrightarrow>
               invocations (concat trs @ trd) \<le> 1
             \<and> releases (concat trs @ trd) = 1
             \<and> (calls = [] \<longrightarrow> trs = [] \<and> trd = [DeleteGlobalRef (Some obj)])
             \<and> (\<forall>c cs. calls = c # cs \<longrightarrow>
                   trs = [CallVoidMethod (Some obj) gFrameCompleteCallback_onFrameComplete
                            (snd c),
                          DeleteGlobalRef (Some obj)] # map (\<lambda>c. []) cs
                 \<and> trd = []))
         \<and> (\<forall>vm. GetJavaVM env = Some vm \<and> (\<forall>c\<in>set calls. fst c vm \<noteq> None)
                  \<and> GetEnv vm \<noteq> None \<longrightarrow>
               (\<exists>trs trd. wrapper_life w calls GetEnv = Inr (trs, trd)))"
proof -
  obtain obj where w: "w = \<lparr>mVm = GetJavaVM env, mObject = Some obj\<rparr>"
    and tr0: "tr0 = [Call_NewGlobalRef listener (Some obj)]"
    using FrameCompleteWrapper_new_Inr [OF assms] by blast
  have ob: "mObject w = Some obj"
    using w by simp
  have shape: "invocations (concat trs @ trd) \<le> 1
             \<and> releases (concat trs @ trd) = 1
             \<and> (calls = [] \<longrightarrow> trs = [] \<and> trd = [DeleteGlobalRef (Some obj)])
             \<and> (\<forall>c cs. calls = c # cs \<longrightarrow>
                   trs = [CallVoidMethod (Some obj) gFrameCompleteCallback_onFrameComplete
                            (snd c),
                          DeleteGlobalRef (Some obj)] # map (\<lambda>c. []) cs
                 \<and> trd = [])"
    if run: "wrapper_life w calls GetEnv = Inr (trs, trd)" for trs trd
  proof (cases calls)
    case Nil
    then show ?thesis
      using wrapper_life_returns [OF ob run]
      by (simp add: invocations_def releases_def)
  next
    case (Cons c cs)
    then show ?thesis
      using wrapper_life_returns [OF ob run]
      by (simp add: invocations_def releases_def concat_empty_traces)
  qed
  have completes: "\<exists>trs trd. wrapper_life w calls GetEnv = Inr (trs, trd)"
    if vm: "GetJavaVM env = Some vm" and threads: "\<forall>c\<in>set calls. fst c vm \<noteq> None"
      and last: "GetEnv vm \<noteq> None" for vm
  proof (cases calls)
    case Nil
    obtain e where "GetEnv vm = Some e" using last by blast
    then show ?thesis
      using Nil wrapper_life_never_fired [of w vm obj GetEnv e] w vm by simp
  next
    case (Cons c cs)
    then obtain e where "fst c vm = Some e" using threads by auto
    then show ?thesis
      using Cons wrapper_life_fired [of w vm obj c e cs GetEnv] w vm by simp
  qed
  show ?thesis
    using tr0 shape completes by blast
qed

theorem frameComplete_single_shot_witness:
  "wrapper_life \<lparr>mVm = Some the_vm, mObject = Some (JObject 101)\<rparr>
     [(attached, 7), (attached, 8)] attached
   = Inr ([[CallVoidMethod (Some (JObject 101)) gFrameCompleteCallback_onFrameComplete 7,
            DeleteGlobalRef (Some (JObject 101))], []], [])"
proof -
  have n: "FrameCompleteWrapper_new good_env (JObject 1)
             = Inr (\<lparr>mVm = Some the_vm, mObject = Some (JObject 101)\<rparr>,
                    [Call_NewGlobalRef (JObject 1) (Some (JObject 101))])"
    by (simp add: FrameCompleteWrapper_new_def good_env_def)
  have v: "GetJavaVM good_env = Some the_vm"
    by (simp add: good_env_def)
  have c: "\<forall>c\<in>set [(attached, 7 :: jlong), (attached, 8)]. fst c the_vm \<noteq> None"
    by (simp add: attached_def)
  have d: "attached the_vm \<noteq> None"
    by (simp add: attached_def)
  obtain obj where
    o: "[Call_NewGlobalRef (JObject 1) (Some (JObject 101))]
          = [Call_NewGlobalRef (JObject 1) (Some obj)]"
    and shape: "\<And>trs trd.
       wrapper_life \<lparr>mVm = Some the_vm, mObject = Some (JObject 101)\<rparr>
         [(attached, 7), (attached, 8)] attached = Inr (trs, trd) \<Longrightarrow>
       trs = [CallVoidMethod (Some obj) gFrameCompleteCallback_onFrameComplete 7,
              DeleteGlobalRef (Some obj)] # map (\<lambda>c. []) [(attached, 8 :: jlong)]
       \<and> trd = []"
    and completes: "\<exists>trs trd.
       wrapper_life \<lparr>mVm = Some the_vm, mObject = Some (JObject 101)\<rparr>
         [(attached, 7), (attached, 8)] attached = Inr (trs, trd)"
    using frameComplete_single_shot
      [where GetEnv = attached and calls = "[(attached, 7), (attached, 8)]", OF n] v c d
    by auto
  have "obj = JObject 101"
    using o by simp
  then show ?thesis
    using shape completes by auto
qed

section \<open>Callback registrations\<close>






text \<open>
  The picture and frame registrations do not look at what \<^verbatim>\<open>NewGlobalRef\<close>
  answers: where it answers null they return and hand the proxy a holder of no
  reference, while the frame-complete registration aborts.
\<close>

lemma registration_with_null_reference:
  "android_view_ThreadedRenderer_setFrameCallback null_ref_env (Some (JObject 1))
     = Inr [Call_NewGlobalRef (JObject 1) None,
            RenderProxy_setFrameCallback
              (Some \<lparr>holder_mVm = the_vm, holder_mObject = None\<rparr>)]
   \<and> android_view_ThreadedRenderer_setPictureCapturedCallbackJNI null_ref_env (Some (JObject 1))
     = Inr [Call_NewGlobalRef (JObject 1) None,
            RenderProxy_setPictureCapturedCallback
              (Some \<lparr>holder_mVm = the_vm, holder_mObject = None\<rparr>)]
   \<and> android_view_ThreadedRenderer_setFrameCompleteCallback null_ref_env (Some (JObject 1))
     = Inl (Fatal ''Failed to make global ref'')"
  by (simp add: android_view_ThreadedRenderer_setFrameCallback_def
      android_view_ThreadedRenderer_setPictureCapturedCallbackJNI_def
      android_view_ThreadedRenderer_setFrameCompleteCallback_def
      FrameCompleteWrapper_new_def null_ref_env_def good_env_def)





section \<open>Missing environment handles\<close>

text \<open>
  \<open>getenv\<close> ends the process when \<open>GetEnv\<close> fails, and returns only the
  environment that \<open>GetEnv\<close> gave.
\<close>

lemma getenv_aborts:
  assumes "GetEnv vm = None"
  shows "getenv GetEnv vm = Inl (Fatal ''Failed to get JNIEnv for JavaVM'')"
  using assms by (simp add: getenv_def)

lemma getenv_returns:
  assumes "getenv GetEnv vm = Inr env"
  shows "GetEnv vm = Some env"
  using assms by (simp add: getenv_def split: option.splits)

text \<open>The attach hook ends the process when no VM was stored, which is also the case after a registration whose \<open>GetJavaVM\<close> failed.\<close>

lemma attachRenderThreadToJvm_aborts:
  "attachRenderThreadToJvm None name = Inl (Fatal ''No jvm but we set the hook??'')"
  by (simp add: attachRenderThreadToJvm_def)

lemma attachRenderThreadToJvm_after_failed_registration:
  assumes "GetJavaVM env = None"
  shows "attachRenderThreadToJvm (register_android_view_ThreadedRenderer_mJvm env) name
           = Inl (Fatal ''No jvm but we set the hook??'')"
  using assms
  by (simp add: attachRenderThreadToJvm_def register_android_view_ThreadedRenderer_mJvm_def)

text \<open>The three registrations that test the status of \<open>GetJavaVM\<close> end the process when it fails.\<close>

lemma checked_registrations_abort:
  assumes "GetJavaVM env = None"
  shows "android_view_ThreadedRenderer_setPictureCapturedCallbackJNI env (Some cb)
           = Inl (Fatal ''Unable to get Java VM'')
       \<and> android_view_ThreadedRenderer_setFrameCallback env (Some cb)
           = Inl (Fatal ''Unable to get Java VM'')
       \<and> android_view_ThreadedRenderer_addFrameMetricsObserver env st fso
           = Inl (Fatal ''Unable to get Java VM'')"
  using assms
  by (simp add: android_view_ThreadedRenderer_setPictureCapturedCallbackJNI_def
      android_view_ThreadedRenderer_setFrameCallback_def
      android_view_ThreadedRenderer_addFrameMetricsObserver_def)

text \<open>
  C8. The claim asks every callback registration to abort when \<open>GetJavaVM\<close>
  fails. nSetFrameCompleteCallback does not: the constructor of the wrapper never
  looks at the status. In an environment where \<open>GetJavaVM\<close> fails, nSetFrameCallback
  aborts, while nSetFrameCompleteCallback returns and hands the proxy a wrapper whose
  \<open>mVm\<close> was never written; the first \<open>onFrameComplete\<close> then reads it.
\<close>

theorem setFrameCompleteCallback_ignores_GetJavaVM_failure:
  "GetJavaVM no_vm_env = None
   \<and> android_view_ThreadedRenderer_setFrameCallback no_vm_env (Some (JObject 1))
       = Inl (Fatal ''Unable to get Java VM'')
   \<and> android_view_ThreadedRenderer_setFrameCompleteCallback no_vm_env (Some (JObject 1))
       = Inr [Call_NewGlobalRef (JObject 1) (Some (JObject 101)),
              RenderProxy_setFrameCompleteCallback
                (Some \<lparr>mVm = None, mObject = Some (JObject 101)\<rparr>)]
   \<and> FrameCompleteWrapper_onFrameComplete attached
         \<lparr>mVm = None, mObject = Some (JObject 101)\<rparr> 7
       = Inl (UninitializedRead ''mVm'')"
  by (simp add: android_view_ThreadedRenderer_setFrameCallback_def
      android_view_ThreadedRenderer_setFrameCompleteCallback_def
      FrameCompleteWrapper_new_def FrameCompleteWrapper_onFrameComplete_def
      getenv_mVm_def no_vm_env_def good_env_def)

section \<open>String buffers\<close>

text \<open>\<open>setupShadersDiskCache\<close> releases each of its two buffers with the string it came from, and \<open>setName\<close> its one buffer.\<close>

lemma setupShadersDiskCache_pairs_releases:
  assumes "diskCachePath \<noteq> skiaDiskCachePath"
  shows "released_with_own_string env diskCachePath
           (android_view_ThreadedRenderer_setupShadersDiskCache env diskCachePath skiaDiskCachePath)
       \<and> released_with_own_string env skiaDiskCachePath
           (android_view_ThreadedRenderer_setupShadersDiskCache env diskCachePath skiaDiskCachePath)"
  using assms
  by (auto simp add: released_with_own_string_def
      android_view_ThreadedRenderer_setupShadersDiskCache_def Let_def)

lemma setName_pairs_release:
  "released_with_own_string env jname (android_view_ThreadedRenderer_setName env jname)"
  by (simp add: released_with_own_string_def android_view_ThreadedRenderer_setName_def Let_def)

text \<open>\<open>overrideProperty\<close> releases the buffer of the value with the name string: for two different strings the value's buffer is never released with the value.\<close>

lemma overrideProperty_value_not_paired:
  assumes "name \<noteq> val"
  shows "\<not> released_with_own_string env val
             (android_view_ThreadedRenderer_overrideProperty env name val)"
  using assms
  by (auto simp add: released_with_own_string_def
      android_view_ThreadedRenderer_overrideProperty_def Let_def)

text \<open>
  C9. The claim asks that each of the two buffers of nOverrideProperty is released
  once, with the string it was obtained from. On the name \<open>JString 1\<close> and the value
  \<open>JString 2\<close> both buffers are released once, but the second release names the
  name string again: the buffer of the value is not released with the value.
\<close>

theorem overrideProperty_releases_value_with_name:
  "android_view_ThreadedRenderer_overrideProperty good_env (JString 1) (JString 2)
     = [Call_GetStringUTFChars (JString 1) (CharPtr 10),
        Call_GetStringUTFChars (JString 2) (CharPtr 20),
        RenderProxy_overrideProperty (CharPtr 10) (CharPtr 20),
        ReleaseStringUTFChars (JString 1) (CharPtr 10),
        ReleaseStringUTFChars (JString 1) (CharPtr 20)]
   \<and> released_with_own_string good_env (JString 1)
        (android_view_ThreadedRenderer_overrideProperty good_env (JString 1) (JString 2))
   \<and> \<not> released_with_own_string good_env (JString 2)
        (android_view_ThreadedRenderer_overrideProperty good_env (JString 1) (JString 2))"
  by (simp add: released_with_own_string_def
      android_view_ThreadedRenderer_overrideProperty_def good_env_def Let_def)

section \<open>Frame-metrics observers\<close>

text \<open>One registration: a new object at the next address, inserted into the registered observers.\<close>

lemma addFrameMetricsObserver_step:
  assumes "GetJavaVM env = Some vm"
  shows "android_view_ThreadedRenderer_addFrameMetricsObserver env st fso
           = Inr (Suc (length (heap st)),
                  \<lparr>heap = heap st @ [\<lparr>observer_vm = vm, observer_fso = fso\<rparr>],
                   mObservers = List.insert (Suc (length (heap st))) (mObservers st)\<rparr>)"
  using assms
  by (simp add: android_view_ThreadedRenderer_addFrameMetricsObserver_def
      RenderProxy_addFrameMetricsObserver_def Let_def)

text \<open>While every registered address is live, the next address is not registered, and the entries of an observer stay what they were when the heap grows.\<close>

lemma fresh_address_unregistered:
  assumes "registered_live st"
  shows "Suc (length (heap st)) \<notin> set (mObservers st)"
  using assms by (auto simp add: registered_live_def list_all_iff)

lemma entries_for_grown_heap:
  assumes "registered_live st"
  shows "entries_for \<lparr>heap = heap st @ [ob], mObservers = mObservers st\<rparr> fso
           = entries_for st fso"
proof -
  have "\<And>a. a \<in> set (mObservers st) \<Longrightarrow>
          (0 < a \<and> a \<le> length (heap st @ [ob]) \<and> observer_fso ((heap st @ [ob]) ! (a - 1)) = fso)
          = (0 < a \<and> a \<le> length (heap st) \<and> observer_fso (heap st ! (a - 1)) = fso)"
    using assms by (auto simp add: registered_live_def list_all_iff nth_append)
  then show ?thesis
    by (simp add: entries_for_def cong: filter_cong)
qed

lemma entries_for_new_entry:
  assumes "registered_live st"
  shows "entries_for \<lparr>heap = heap st @ [\<lparr>observer_vm = vm, observer_fso = fso\<rparr>],
                      mObservers = Suc (length (heap st)) # mObservers st\<rparr> fso
           = Suc (length (heap st)) # entries_for st fso"
proof -
  have "entries_for \<lparr>heap = heap st @ [\<lparr>observer_vm = vm, observer_fso = fso\<rparr>],
                      mObservers = Suc (length (heap st)) # mObservers st\<rparr> fso
          = Suc (length (heap st))
            # entries_for \<lparr>heap = heap st @ [\<lparr>observer_vm = vm, observer_fso = fso\<rparr>],
                           mObservers = mObservers st\<rparr> fso"
    by (simp add: entries_for_def)
  then show ?thesis
    using entries_for_grown_heap [OF assms] by simp
qed

lemma registered_live_grown:
  assumes "registered_live st"
  shows "registered_live \<lparr>heap = heap st @ [ob],
                           mObservers = Suc (length (heap st)) # mObservers st\<rparr>"
  using assms by (auto simp add: registered_live_def list_all_iff)

lemma addFrameMetricsObserver_registers_new_entry:
  assumes "registered_live st" and "GetJavaVM env = Some vm"
  shows "\<exists>st1. android_view_ThreadedRenderer_addFrameMetricsObserver env st fso
                  = Inr (Suc (length (heap st)), st1)
             \<and> length (heap st1) = Suc (length (heap st))
             \<and> mObservers st1 = Suc (length (heap st)) # mObservers st
             \<and> entries_for st1 fso = Suc (length (heap st)) # entries_for st fso
             \<and> registered_live st1"
  using addFrameMetricsObserver_step [OF assms(2), of st fso]
    fresh_address_unregistered [OF assms(1)]
    entries_for_new_entry [OF assms(1), of vm fso]
    registered_live_grown [OF assms(1), of "\<lparr>observer_vm = vm, observer_fso = fso\<rparr>"]
  by (simp add: List.insert_def)

lemma removeFrameMetricsObserver_unregistered:
  assumes "observerPtr \<notin> set (mObservers st)"
  shows "android_view_ThreadedRenderer_removeFrameMetricsObserver st observerPtr = st"
  using assms
  by (simp add: android_view_ThreadedRenderer_removeFrameMetricsObserver_def
      RenderProxy_removeFrameMetricsObserver_def)

text \<open>
  C6, as stated, fails: nAddFrameMetricsObserver makes a new native observer at
  every call, so registering the Java observer \<open>JObject 1\<close> twice, starting with no
  observer, leaves two registered entries that report to it, not one.
\<close>

theorem addFrameMetricsObserver_twice_counterexample:
  "android_view_ThreadedRenderer_addFrameMetricsObserver good_env no_observers (JObject 1)
     = Inr (1, \<lparr>heap = [\<lparr>observer_vm = the_vm, observer_fso = JObject 1\<rparr>],
                mObservers = [1]\<rparr>)
   \<and> android_view_ThreadedRenderer_addFrameMetricsObserver good_env
         \<lparr>heap = [\<lparr>observer_vm = the_vm, observer_fso = JObject 1\<rparr>], mObservers = [1]\<rparr>
         (JObject 1)
     = Inr (2, \<lparr>heap = [\<lparr>observer_vm = the_vm, observer_fso = JObject 1\<rparr>,
                        \<lparr>observer_vm = the_vm, observer_fso = JObject 1\<rparr>],
                mObservers = [2, 1]\<rparr>)
   \<and> entries_for \<lparr>heap = [\<lparr>observer_vm = the_vm, observer_fso = JObject 1\<rparr>,
                          \<lparr>observer_vm = the_vm, observer_fso = JObject 1\<rparr>],
                  mObservers = [2, 1]\<rparr> (JObject 1) = [2, 1]
   \<and> length [2, 1 :: nat] \<noteq> 1"
  by (simp add: android_view_ThreadedRenderer_addFrameMetricsObserver_def
      RenderProxy_addFrameMetricsObserver_def entries_for_def no_observers_def good_env_def
      Let_def)

text \<open>
  C6, amended. Where \<open>GetJavaVM\<close> succeeds, each call of nAddFrameMetricsObserver
  registers a new native observer for the Java observer it is given and answers its
  handle: two calls with the same Java observer answer two different handles and
  add two entries for it. Inserting one native observer twice into the registered
  set is the same as inserting it once, and removing an observer that is not
  registered through nRemoveFrameMetricsObserver changes nothing and is no error.
\<close>

theorem addFrameMetricsObserver_one_entry_per_call:
  assumes "registered_live st" and "GetJavaVM env = Some vm"
  shows "(\<exists>h1 st1 h2 st2.
            android_view_ThreadedRenderer_addFrameMetricsObserver env st fso = Inr (h1, st1)
          \<and> android_view_ThreadedRenderer_addFrameMetricsObserver env st1 fso = Inr (h2, st2)
          \<and> h1 \<noteq> h2
          \<and> mObservers st2 = h2 # h1 # mObservers st
          \<and> entries_for st2 fso = h2 # h1 # entries_for st fso)
       \<and> RenderProxy_addFrameMetricsObserver observer
            (RenderProxy_addFrameMetricsObserver observer registered)
           = RenderProxy_addFrameMetricsObserver observer registered
       \<and> (observerPtr \<notin> set (mObservers st) \<longrightarrow>
            android_view_ThreadedRenderer_removeFrameMetricsObserver st observerPtr = st)"
proof -
  obtain st1 where
    a1: "android_view_ThreadedRenderer_addFrameMetricsObserver env st fso
           = Inr (Suc (length (heap st)), st1)"
    and h1: "length (heap st1) = Suc (length (heap st))"
    and m1: "mObservers st1 = Suc (length (heap st)) # mObservers st"
    and e1: "entries_for st1 fso = Suc (length (heap st)) # entries_for st fso"
    and l1: "registered_live st1"
    using addFrameMetricsObserver_registers_new_entry [OF assms] by blast
  obtain st2 where
    a2: "android_view_ThreadedRenderer_addFrameMetricsObserver env st1 fso
           = Inr (Suc (length (heap st1)), st2)"
    and m2: "mObservers st2 = Suc (length (heap st1)) # mObservers st1"
    and e2: "entries_for st2 fso = Suc (length (heap st1)) # entries_for st1 fso"
    using addFrameMetricsObserver_registers_new_entry [OF l1 assms(2)] by blast
  have "Suc (length (heap st)) \<noteq> Suc (length (heap st1))"
    using h1 by simp
  then have twice: "\<exists>h1 st1 h2 st2.
            android_view_ThreadedRenderer_addFrameMetricsObserver env st fso = Inr (h1, st1)
          \<and> android_view_ThreadedRenderer_addFrameMetricsObserver env st1 fso = Inr (h2, st2)
          \<and> h1 \<noteq> h2
          \<and> mObservers st2 = h2 # h1 # mObservers st
          \<and> entries_for st2 fso = h2 # h1 # entries_for st fso"
    using a1 a2 m1 m2 e1 e2 by auto
  have idem: "RenderProxy_addFrameMetricsObserver observer
            (RenderProxy_addFrameMetricsObserver observer registered)
           = RenderProxy_addFrameMetricsObserver observer registered"
    by (simp add: RenderProxy_addFrameMetricsObserver_def)
  show ?thesis
    using twice idem removeFrameMetricsObserver_unregistered [of observerPtr st] by blast
qed

theorem addFrameMetricsObserver_one_entry_per_call_witness:
  "(\<exists>h1 st1 h2 st2.
      android_view_ThreadedRenderer_addFrameMetricsObserver good_env no_observers (JObject 1)
        = Inr (h1, st1)
    \<and> android_view_ThreadedRenderer_addFrameMetricsObserver good_env st1 (JObject 1)
        = Inr (h2, st2)
    \<and> h1 \<noteq> h2
    \<and> mObservers st2 = [h2, h1]
    \<and> entries_for st2 (JObject 1) = [h2, h1])
   \<and> android_view_ThreadedRenderer_removeFrameMetricsObserver no_observers 5 = no_observers"
proof -
  have l: "registered_live no_observers"
    by (simp add: registered_live_def no_observers_def)
  have v: "GetJavaVM good_env = Some the_vm"
    by (simp add: good_env_def)
  have e: "entries_for no_observers (JObject 1) = []"
    by (simp add: entries_for_def no_observers_def)
  have m: "mObservers no_observers = []"
    by (simp add: no_observers_def)
  show ?thesis
    using addFrameMetricsObserver_one_entry_per_call [OF l v, of "JObject 1" 0 "[]" 5] e m
    by simp
qed

end
